theory Spec2Isabelle
  imports Complex_Main
begin

section \<open>Values, exceptions and responses\<close>

text \<open>
  The application (\<^verbatim>\<open>app.py\<close>) is a FastAPI program. Its handlers are modelled as
  functions from their inputs and the state they touch (the Redis session store, the
  database) to either a raised exception or a response, together with the state they
  leave behind. What lies outside the program (the \<^verbatim>\<open>json\<close> and \<^verbatim>\<open>jwt\<close> libraries,
  the identity server, \<^verbatim>\<open>uuid4\<close>, the clock, the stored procedures of the database and
  the \<^verbatim>\<open>AccessController\<close> of \<^verbatim>\<open>access_ctrl.py\<close>) is a parameter of the model.
\<close>

text \<open>
  Python values as they come out of \<^verbatim>\<open>json.loads\<close>, \<^verbatim>\<open>jwt.decode\<close> and the database
  cursor. A dictionary is the list of its items, each key once. Floats are the
  rationals they stand for, here and for the amounts of the forms and of the database;
  the values \<^verbatim>\<open>nan\<close> and \<^verbatim>\<open>inf\<close> have no counterpart.
\<close>

datatype pyval =
    PNone
  | PBool bool
  | PInt int
  | PFloat rat
  | PStr string
  | PList "pyval list"
  | PDict "(string \<times> pyval) list"

text \<open>Python's truth test, as used by \<^verbatim>\<open>if not x\<close>.\<close>

fun truthy :: "pyval \<Rightarrow> bool" where
  "truthy PNone = False"
| "truthy (PBool b) = b"
| "truthy (PInt i) = (i \<noteq> 0)"
| "truthy (PFloat r) = (r \<noteq> 0)"
| "truthy (PStr s) = (s \<noteq> [])"
| "truthy (PList xs) = (xs \<noteq> [])"
| "truthy (PDict kvs) = (kvs \<noteq> [])"

datatype py_exception = TypeError | KeyError | AttributeError | JSONDecodeError

text \<open>
  What a handler can raise: an \<^verbatim>\<open>HTTPException\<close> with its status code and detail, or
  any other exception, which nothing in the program catches.
\<close>

datatype error =
    HTTPException nat string
  | Uncaught py_exception

text \<open>\<^verbatim>\<open>d[key]\<close>: a \<^verbatim>\<open>KeyError\<close> on a dictionary without the key, a \<^verbatim>\<open>TypeError\<close> on
  a value that is not a dictionary (a string key does not index a list or a string).\<close>

fun subscript :: "pyval \<Rightarrow> string \<Rightarrow> py_exception + pyval" where
  "subscript (PDict kvs) k = (case map_of kvs k of None \<Rightarrow> Inl KeyError | Some v \<Rightarrow> Inr v)"
| "subscript _ k = Inl TypeError"

text \<open>\<^verbatim>\<open>d.get(key)\<close>: \<^verbatim>\<open>None\<close> for a missing key; only a dictionary has the method.\<close>

fun py_get :: "pyval \<Rightarrow> string \<Rightarrow> py_exception + pyval" where
  "py_get (PDict kvs) k = (case map_of kvs k of None \<Rightarrow> Inr PNone | Some v \<Rightarrow> Inr v)"
| "py_get _ k = Inl AttributeError"

text \<open>\<^verbatim>\<open>s.endswith(suf)\<close> on strings.\<close>

definition endswith :: "string \<Rightarrow> string \<Rightarrow> bool" where
  "endswith s suf = (length suf \<le> length s \<and> drop (length s - length suf) s = suf)"

subsection \<open>Configuration\<close>

definition SESSION_COOKIE_NAME :: string where
  "SESSION_COOKIE_NAME = ''session_token''"

text \<open>
  \<^verbatim>\<open>datetime.timedelta(seconds = 15)\<close>, a duration in whole seconds, and
  \<^verbatim>\<open>total_seconds()\<close>, which reads the seconds off (as the float 15.0 in Python).
\<close>

definition SESSION_DURATION :: nat where
  "SESSION_DURATION = 15"

definition total_seconds :: "nat \<Rightarrow> nat" where
  "total_seconds d = d"

subsection \<open>Responses\<close>

record cookie =
  c_key :: string
  c_value :: string
  c_httponly :: bool
  c_max_age :: nat
  c_samesite :: string
  c_secure :: bool

datatype cookie_op = SetCookie cookie | DeleteCookie string

record user =
  u_username :: string
  u_role :: "string option"

record datetime =
  dt_year :: nat
  dt_month :: nat
  dt_day :: nat
  dt_hour :: nat
  dt_minute :: nat
  dt_second :: nat

record payment_details =
  pd_bill_id :: int
  pd_amount :: rat
  pd_payment_method_id :: int
  pd_payment_method_description :: pyval
  pd_payment_date :: datetime
  pd_payment_status :: pyval

record adjustment_details =
  ad_bill_id :: int
  ad_officer_name :: string
  ad_officer_designation :: string
  ad_original_bill_amount :: rat
  ad_adjustment_amount :: rat
  ad_adjustment_reason :: string
  ad_adjustment_date :: datetime
  ad_confirmation_number :: int

text \<open>The context handed to a template, next to the request.\<close>

datatype page_context =
    UserContext user
  | ErrorContext string
  | PaymentContext payment_details
  | AdjustmentContext adjustment_details

datatype response =
    RedirectResponse string nat "cookie_op list"
  | JSONResponse nat string
  | TemplateResponse string page_context
  | InternalServerError

subsection \<open>The world outside the program\<close>

text \<open>
  The Redis store: a key holds its value and the time-to-live it was written with.
  Redis drops a key when its time has run out; here that is the key being absent.
\<close>

type_synonym redis = "string \<rightharpoonup> string \<times> nat"

definition redis_get :: "redis \<Rightarrow> string \<Rightarrow> string option" where
  "redis_get r k = map_option fst (r k)"

definition redis_setex :: "redis \<Rightarrow> string \<Rightarrow> nat \<Rightarrow> string \<Rightarrow> redis" where
  "redis_setex r k ttl v = r(k \<mapsto> (v, ttl))"

definition redis_delete :: "redis \<Rightarrow> string \<Rightarrow> redis" where
  "redis_delete r k = r(k := None)"

text \<open>
  The calls of stored functions, with their arguments in the order \<^verbatim>\<open>callfunc\<close> passes
  them: \<^verbatim>\<open>fun_process_Payment\<close> (bill, date, method, amount) and \<^verbatim>\<open>fun_adjust_Bill\<close>
  (adjustment id, bill, date, officer name, designation, original amount, adjustment
  amount, reason).
\<close>

datatype stored_call =
    Process_Payment int datetime int rat
  | Adjust_Bill int int datetime string string rat rat string

text \<open>
  The database as the handlers see it. Each table is given by the rows a query for one
  id yields, in the order the cursor returns them: for \<^verbatim>\<open>BILL\<close> the column
  \<^verbatim>\<open>TotalAmount_BeforeDueDate\<close> (\<open>None\<close> is \<^verbatim>\<open>NULL\<close>), for \<^verbatim>\<open>PAYMENTDETAILS\<close> the
  column \<^verbatim>\<open>PaymentStatus\<close>, for \<^verbatim>\<open>PaymentMethods\<close> the description. \<open>calls\<close> is the
  ledger of the stored functions invoked so far.
\<close>

record database =
  BILL :: "int \<Rightarrow> rat option list"
  PAYMENTDETAILS :: "int \<Rightarrow> pyval list"
  PaymentMethods :: "int \<Rightarrow> pyval list"
  calls :: "stored_call list"

definition fetchone :: "'a list \<Rightarrow> 'a option" where
  "fetchone rows = (case rows of [] \<Rightarrow> None | r # _ \<Rightarrow> Some r)"

text \<open>What \<^verbatim>\<open>jwt.decode\<close> does with a token, under the configured secret and algorithm.\<close>

datatype jwt_result =
    ExpiredSignatureError
  | InvalidTokenError
  | Decoded "(string \<times> pyval) list"

text \<open>
  The collaborators of the program:
  \<^item> \<open>json_loads\<close>, \<open>json_dumps\<close>: the \<^verbatim>\<open>json\<close> module (\<open>None\<close>: a decode error);
  \<^item> \<open>token_exchange\<close>: the POST of the authorization code to the identity server, with
    \<^verbatim>\<open>raise_for_status\<close> and \<^verbatim>\<open>response.json()\<close>; \<open>Inl\<close> is the text of a
    \<^verbatim>\<open>RequestException\<close>;
  \<^item> \<open>jwt_decode\<close>: \<^verbatim>\<open>jwt.decode\<close> with \<^verbatim>\<open>SECRET_KEY\<close> and \<^verbatim>\<open>ALGORITHM\<close>;
  \<^item> \<open>uuid4\<close>: the identifier \<^verbatim>\<open>str(uuid.uuid4())\<close> yields for this request;
  \<^item> \<open>now\<close>: \<^verbatim>\<open>datetime.datetime.now()\<close>;
  \<^item> \<open>is_allowed\<close>: the query method of the \<^verbatim>\<open>AccessController\<close> built from
    \<^verbatim>\<open>access.cfg\<close>;
  \<^item> \<open>stored_function\<close>: what a stored function returns and does to the tables.
\<close>

record env =
  json_loads :: "string \<Rightarrow> pyval option"
  json_dumps :: "pyval \<Rightarrow> string"
  token_exchange :: "string \<Rightarrow> string + pyval"
  jwt_decode :: "pyval \<Rightarrow> jwt_result"
  uuid4 :: string
  now :: datetime
  is_allowed :: "string option \<Rightarrow> string \<Rightarrow> bool"
  stored_function :: "stored_call \<Rightarrow> database \<Rightarrow> int option \<times> database"

text \<open>\<^verbatim>\<open>cursor.callfunc\<close>: the stored function runs and the call is on the ledger.\<close>

definition callfunc :: "env \<Rightarrow> stored_call \<Rightarrow> database \<Rightarrow> int option \<times> database" where
  "callfunc e c db =
     (case stored_function e c db of (r, db') \<Rightarrow> (r, db'\<lparr>calls := calls db @ [c]\<rparr>))"

section \<open>Roles and the session validator\<close>

definition get_role :: "string \<Rightarrow> string option" where
  "get_role uname =
     (if endswith uname ''_u1'' then Some ''customer''
      else if endswith uname ''_u2'' then Some ''bank_cashier''
      else if endswith uname ''_u3'' then Some ''disco_employee''
      else None)"

text \<open>
  \<^verbatim>\<open>validate_session\<close>. The test \<^verbatim>\<open>not x\<close> on a \<^verbatim>\<open>str | None\<close> holds for \<^verbatim>\<open>None\<close> and
  for the empty string. \<^verbatim>\<open>get_role\<close> calls \<^verbatim>\<open>endswith\<close> on the username, a method only
  a string has.
\<close>

definition validate_session :: "env \<Rightarrow> redis \<Rightarrow> string option \<Rightarrow> error + user" where
  "validate_session e redis_db session_token =
     (case session_token of
        None \<Rightarrow> Inl (HTTPException 401 ''Not authenticated. Session token missing'')
      | Some tok \<Rightarrow>
          if tok = []
          then Inl (HTTPException 401 ''Not authenticated. Session token missing'')
          else
            (case redis_get redis_db tok of
               None \<Rightarrow> Inl (HTTPException 401 ''Token has expired'')
             | Some session_payload \<Rightarrow>
                 if session_payload = []
                 then Inl (HTTPException 401 ''Token has expired'')
                 else
                   (case json_loads e session_payload of
                      None \<Rightarrow> Inl (Uncaught JSONDecodeError)
                    | Some doc \<Rightarrow>
                        (case subscript doc ''username'' of
                           Inl x \<Rightarrow> Inl (Uncaught x)
                         | Inr uname \<Rightarrow>
                             if \<not> truthy uname
                             then Inl (HTTPException 401 ''Username missing in session token'')
                             else
                               (case uname of
                                  PStr u \<Rightarrow> Inr \<lparr>u_username = u, u_role = get_role u\<rparr>
                                | _ \<Rightarrow> Inl (Uncaught AttributeError))))))"

section \<open>The authentication flow\<close>

text \<open>
  \<^verbatim>\<open>POST /callback\<close>. An \<^verbatim>\<open>HTTPException\<close> raised inside the \<^verbatim>\<open>try\<close> block passes the
  three \<^verbatim>\<open>except\<close> clauses, which catch other classes. The session is written before
  the response is built, and nothing is written on a path that raises.
\<close>

definition getAccessToken :: "env \<Rightarrow> redis \<Rightarrow> string option \<Rightarrow> error + response \<times> redis" where
  "getAccessToken e redis_db code =
     (case code of
        None \<Rightarrow> Inl (HTTPException 400 ''Authorization code not provided/missing.'')
      | Some c \<Rightarrow>
          if c = []
          then Inl (HTTPException 400 ''Authorization code not provided/missing.'')
          else
            (case token_exchange e c of
               Inl msg \<Rightarrow> Inl (HTTPException 500 (''Error fetching token: '' @ msg))
             | Inr token_info \<Rightarrow>
                 (case py_get token_info ''token'' of
                    Inl x \<Rightarrow> Inl (Uncaught x)
                  | Inr jwt_token \<Rightarrow>
                      if \<not> truthy jwt_token
                      then Inl (HTTPException 401 ''Failed to retrieve token.'')
                      else
                        (case jwt_decode e jwt_token of
                           ExpiredSignatureError \<Rightarrow> Inl (HTTPException 401 ''Token has expired'')
                         | InvalidTokenError \<Rightarrow> Inl (HTTPException 401 ''Invalid Token'')
                         | Decoded decoded_token \<Rightarrow>
                             (case py_get (PDict decoded_token) ''sub'' of
                                Inl x \<Rightarrow> Inl (Uncaught x)
                              | Inr uname \<Rightarrow>
                                  if \<not> truthy uname
                                  then Inl (HTTPException 401 ''Invalid Token: Missing Username'')
                                  else
                                    let session_id = uuid4 e;
                                        session_payload =
                                          PDict [(''username'', uname), (''role'', PNone)];
                                        redis_db' =
                                          redis_setex redis_db session_id 15
                                            (json_dumps e session_payload)
                                    in Inr
                                         (RedirectResponse ''/dashboard'' 302
                                            [SetCookie
                                               \<lparr>c_key = SESSION_COOKIE_NAME,
                                                c_value = session_id,
                                                c_httponly = True,
                                                c_max_age = total_seconds SESSION_DURATION,
                                                c_samesite = ''none'',
                                                c_secure = True\<rparr>],
                                          redis_db'))))))"

text \<open>The handler registered for \<^verbatim>\<open>HTTPException\<close>, applied to its status and detail.\<close>

definition custom_http_exception_handler :: "nat \<Rightarrow> string \<Rightarrow> response" where
  "custom_http_exception_handler status_code detail =
     (if status_code = 401 \<and> detail = ''Token has expired''
      then RedirectResponse ''https://168.138.178.200'' 302 []
      else JSONResponse status_code detail)"

text \<open>\<^verbatim>\<open>GET /sign-out\<close>.\<close>

definition sign_out :: "redis \<Rightarrow> string option \<Rightarrow> response \<times> redis" where
  "sign_out redis_db session_token =
     (let redis_db' =
        (case session_token of
           None \<Rightarrow> redis_db
         | Some tok \<Rightarrow> if tok = [] then redis_db else redis_delete redis_db tok)
      in (RedirectResponse ''https://168.138.178.200'' 302 [DeleteCookie SESSION_COOKIE_NAME],
          redis_db'))"

section \<open>The pages\<close>

definition get_dashboard :: "user \<Rightarrow> error + response" where
  "get_dashboard usr = Inr (TemplateResponse ''dashboard.html'' (UserContext usr))"

definition get_bill_payment :: "env \<Rightarrow> user \<Rightarrow> error + response" where
  "get_bill_payment e usr =
     (let function = ''/bill-payment'' in
      if \<not> is_allowed e (u_role usr) function
      then Inl (HTTPException 403 ''Forbidden'')
      else Inr (TemplateResponse ''bill_payment.html'' (UserContext usr)))"

definition get_bill_retrieval :: "env \<Rightarrow> user \<Rightarrow> error + response" where
  "get_bill_retrieval e usr =
     (let function = ''/bill-retrieval'' in
      if \<not> is_allowed e (u_role usr) function
      then Inl (HTTPException 403 ''Forbidden'')
      else Inr (TemplateResponse ''bill_retrieval.html'' (UserContext usr)))"

definition get_bill_adjustment :: "env \<Rightarrow> user \<Rightarrow> error + response" where
  "get_bill_adjustment e usr =
     (let function = ''/bill-adjustment'' in
      if \<not> is_allowed e (u_role usr) function
      then Inl (HTTPException 403 ''Forbidden'')
      else Inr (TemplateResponse ''bill_adjustments.html'' (UserContext usr)))"

section \<open>The billing handlers\<close>

text \<open>\<^verbatim>\<open>str\<close> of an integer and \<^verbatim>\<open>int\<close> of the decimal text it yields.\<close>

definition digit_char :: "nat \<Rightarrow> char" where
  "digit_char d = ''0123456789'' ! d"

fun str_nat :: "nat \<Rightarrow> string" where
  "str_nat n = (if n < 10 then [digit_char n] else str_nat (n div 10) @ [digit_char (n mod 10)])"

declare str_nat.simps [simp del]

definition str_int :: "int \<Rightarrow> string" where
  "str_int i = (if i < 0 then CHR ''-'' # str_nat (nat (- i)) else str_nat (nat i))"

definition nat_of_digits :: "string \<Rightarrow> nat" where
  "nat_of_digits ds = foldl (\<lambda>a c. 10 * a + (of_char c - 48)) 0 ds"

definition int_of_str :: "string \<Rightarrow> int" where
  "int_of_str s =
     (case s of
        [] \<Rightarrow> 0
      | c # ds \<Rightarrow> if c = CHR ''-'' then - int (nat_of_digits ds) else int (nat_of_digits s))"

definition error_page :: "string \<Rightarrow> response" where
  "error_page error_msg = TemplateResponse ''error.html'' (ErrorContext error_msg)"

text \<open>
  \<^verbatim>\<open>POST /bill-payment\<close>. \<^verbatim>\<open>cursor.fetchone()[0]\<close> raises a \<^verbatim>\<open>TypeError\<close> when the
  query has no row.
\<close>

definition post_bill_payment ::
  "env \<Rightarrow> database \<Rightarrow> int \<Rightarrow> rat \<Rightarrow> int \<Rightarrow> (error + response) \<times> database" where
  "post_bill_payment e db bill_id amount payment_method_id =
     (case fetchone (BILL db bill_id) of
        None \<Rightarrow> (Inr (error_page ''Invalid BillID provided.''), db)
      | Some bill_row \<Rightarrow>
          let payment_date = now e in
          (case callfunc e (Process_Payment bill_id payment_date payment_method_id amount) db of
             (status, db') \<Rightarrow>
               if status \<noteq> Some 1
               then (Inr (error_page
                       ''An error occured while processing the request. Please try again. Make sure the values are correct''),
                     db')
               else
                 (case fetchone (PAYMENTDETAILS db' bill_id) of
                    None \<Rightarrow> (Inl (Uncaught TypeError), db')
                  | Some paymentstatus \<Rightarrow>
                      (case fetchone (PaymentMethods db' payment_method_id) of
                         None \<Rightarrow> (Inl (Uncaught TypeError), db')
                       | Some pd_description \<Rightarrow>
                           (Inr (TemplateResponse ''payment_receipt.html''
                                  (PaymentContext
                                     \<lparr>pd_bill_id = bill_id,
                                      pd_amount = amount,
                                      pd_payment_method_id = payment_method_id,
                                      pd_payment_method_description = pd_description,
                                      pd_payment_date = payment_date,
                                      pd_payment_status = paymentstatus\<rparr>)),
                            db')))))"

text \<open>\<^verbatim>\<open>POST /bill-adjustments\<close>.\<close>

definition post_bill_adjustments ::
  "env \<Rightarrow> database \<Rightarrow> int \<Rightarrow> string \<Rightarrow> string \<Rightarrow> rat \<Rightarrow> rat \<Rightarrow> string
     \<Rightarrow> (error + response) \<times> database" where
  "post_bill_adjustments e db bill_id officer_name officer_designation original_bill_amount
       adjustment_amount adjustment_reason =
     (case fetchone (BILL db bill_id) of
        None \<Rightarrow> (Inr (error_page ''Invalid BillID provided.''), db)
      | Some amount_due \<Rightarrow>
          if Some original_bill_amount \<noteq> amount_due
          then (Inr (error_page
                  ''The original bill amount provided does not match the actual amount due.''),
                db)
          else
            (case fetchone (PAYMENTDETAILS db bill_id) of
               None \<Rightarrow> (Inl (Uncaught TypeError), db)
             | Some paymentstatus \<Rightarrow>
                 if truthy paymentstatus
                 then (Inr (error_page
                         ''The bill has already been paid. Adjustments cannot be made to a paid bill.''),
                       db)
                 else
                   let adjustment_DATE = now e;
                       adjustment_id =
                         int_of_str (str_int bill_id @ str_nat (dt_year adjustment_DATE)
                                       @ str_nat (dt_month adjustment_DATE))
                   in
                   (case callfunc e
                           (Adjust_Bill adjustment_id bill_id adjustment_DATE officer_name
                              officer_designation original_bill_amount adjustment_amount
                              adjustment_reason) db of
                      (result, db') \<Rightarrow>
                        if result = Some 1
                        then (Inr (TemplateResponse ''adjustment_receipt.html''
                                     (AdjustmentContext
                                        \<lparr>ad_bill_id = bill_id,
                                         ad_officer_name = officer_name,
                                         ad_officer_designation = officer_designation,
                                         ad_original_bill_amount = original_bill_amount,
                                         ad_adjustment_amount = adjustment_amount,
                                         ad_adjustment_reason = adjustment_reason,
                                         ad_adjustment_date = adjustment_DATE,
                                         ad_confirmation_number = adjustment_id\<rparr>)),
                              db')
                        else (Inr (error_page
                                     ''An error occured while processing the request. Please try again. Make sure the values are correct''),
                              db'))))"

section \<open>The application\<close>

text \<open>
  The requests of the modelled routes, each with the session cookie the client sent
  (\<open>None\<close> when it sent none) and the parameters FastAPI has parsed. A handler declared
  with \<^verbatim>\<open>Depends(validate_session)\<close> runs after the validator, on the user it returns;
  a handler declared without it never sees the cookie. \<^verbatim>\<open>POST /bill-retrieval\<close>
  (which only lays out what \<^verbatim>\<open>util.get_bill_data\<close> returns) and the index page are not
  modelled.
\<close>

datatype request =
    GET_dashboard "string option"
  | GET_sign_out "string option"
  | POST_callback "string option" "string option"
  | GET_bill_payment "string option"
  | GET_bill_retrieval "string option"
  | GET_bill_adjustments "string option"
  | POST_bill_payment "string option" int rat int
  | POST_bill_adjustments "string option" int string string rat rat string

record state =
  redis_db :: redis
  connection :: database

text \<open>
  What the client gets when a handler raises: an \<^verbatim>\<open>HTTPException\<close> goes to the
  registered handler, any other exception is a 500 from the server.
\<close>

fun respond :: "error + response \<Rightarrow> response" where
  "respond (Inr r) = r"
| "respond (Inl (HTTPException status_code detail)) =
     custom_http_exception_handler status_code detail"
| "respond (Inl (Uncaught x)) = InternalServerError"

definition protected :: "env \<Rightarrow> state \<Rightarrow> string option \<Rightarrow> (user \<Rightarrow> error + response) \<Rightarrow> response" where
  "protected e st session_token handler =
     (case validate_session e (redis_db st) session_token of
        Inl x \<Rightarrow> respond (Inl x)
      | Inr usr \<Rightarrow> respond (handler usr))"

fun app :: "env \<Rightarrow> state \<Rightarrow> request \<Rightarrow> response \<times> state" where
  "app e st (GET_dashboard session_token) = (protected e st session_token get_dashboard, st)"
| "app e st (GET_sign_out session_token) =
     (case sign_out (redis_db st) session_token of
        (r, redis_db') \<Rightarrow> (r, st\<lparr>redis_db := redis_db'\<rparr>))"
| "app e st (POST_callback session_token code) =
     (case getAccessToken e (redis_db st) code of
        Inl x \<Rightarrow> (respond (Inl x), st)
      | Inr (r, redis_db') \<Rightarrow> (r, st\<lparr>redis_db := redis_db'\<rparr>))"
| "app e st (GET_bill_payment session_token) =
     (protected e st session_token (get_bill_payment e), st)"
| "app e st (GET_bill_retrieval session_token) =
     (protected e st session_token (get_bill_retrieval e), st)"
| "app e st (GET_bill_adjustments session_token) =
     (protected e st session_token (get_bill_adjustment e), st)"
| "app e st (POST_bill_payment session_token bill_id amount payment_method_id) =
     (case post_bill_payment e (connection st) bill_id amount payment_method_id of
        (r, db') \<Rightarrow> (respond r, st\<lparr>connection := db'\<rparr>))"
| "app e st (POST_bill_adjustments session_token bill_id officer_name officer_designation
       original_bill_amount adjustment_amount adjustment_reason) =
     (case post_bill_adjustments e (connection st) bill_id officer_name officer_designation
             original_bill_amount adjustment_amount adjustment_reason of
        (r, db') \<Rightarrow> (respond r, st\<lparr>connection := db'\<rparr>))"

section \<open>A concrete environment\<close>

text \<open>
  One concrete run-time environment, on which the handlers are evaluated below. The
  \<^verbatim>\<open>json\<close> functions are given on the few texts that occur, where they agree with
  the library; the identity server knows one authorization code for each outcome of
  the exchange.
\<close>

definition alice_payload :: pyval where
  "alice_payload = PDict [(''username'', PStr ''alice_u1''), (''role'', PNone)]"

definition alice_text :: string where
  "alice_text = ''{\"username\": \"alice_u1\", \"role\": null}''"

definition guest_payload :: pyval where
  "guest_payload = PDict [(''username'', PStr ''guest''), (''role'', PNone)]"

definition guest_text :: string where
  "guest_text = ''{\"username\": \"guest\", \"role\": null}''"

definition nameless_payload :: pyval where
  "nameless_payload = PDict [(''username'', PStr []), (''role'', PNone)]"

definition nameless_text :: string where
  "nameless_text = ''{\"username\": \"\", \"role\": null}''"

definition example_loads :: "string \<Rightarrow> pyval option" where
  "example_loads text =
     (if text = alice_text then Some alice_payload
      else if text = guest_text then Some guest_payload
      else if text = nameless_text then Some nameless_payload
      else None)"

definition example_dumps :: "pyval \<Rightarrow> string" where
  "example_dumps v =
     (if v = alice_payload then alice_text
      else if v = guest_payload then guest_text
      else if v = nameless_payload then nameless_text
      else ''null'')"

definition example_exchange :: "string \<Rightarrow> string + pyval" where
  "example_exchange code =
     (if code = ''code-alice'' then Inr (PDict [(''token'', PStr ''jwt-alice'')])
      else if code = ''code-old'' then Inr (PDict [(''token'', PStr ''jwt-old'')])
      else if code = ''code-forged'' then Inr (PDict [(''token'', PStr ''jwt-forged'')])
      else if code = ''code-empty'' then Inr (PDict [(''error'', PStr ''no token'')])
      else Inl ''400 Client Error: Bad Request'')"

definition example_jwt_decode :: "pyval \<Rightarrow> jwt_result" where
  "example_jwt_decode t =
     (if t = PStr ''jwt-alice'' then Decoded [(''sub'', PStr ''alice_u1'')]
      else if t = PStr ''jwt-old'' then ExpiredSignatureError
      else InvalidTokenError)"

definition example_now :: datetime where
  "example_now =
     \<lparr>dt_year = 2024, dt_month = 11, dt_day = 3, dt_hour = 9, dt_minute = 30, dt_second = 0\<rparr>"

text \<open>A controller that knows each role under the path of its route.\<close>

definition example_is_allowed :: "string option \<Rightarrow> string \<Rightarrow> bool" where
  "example_is_allowed r f =
     ((r = Some ''customer'' \<and> f = ''/bill-retrieval'')
      \<or> (r = Some ''bank_cashier'' \<and> f = ''/bill-payment'')
      \<or> (r = Some ''disco_employee'' \<and> f = ''/bill-adjustments''))"

text \<open>Stored functions that succeed; a payment marks the bill as paid.\<close>

fun example_stored_function :: "stored_call \<Rightarrow> database \<Rightarrow> int option \<times> database" where
  "example_stored_function (Process_Payment b d m a) db =
     (Some 1, db\<lparr>PAYMENTDETAILS := (PAYMENTDETAILS db)(b := [PInt 1])\<rparr>)"
| "example_stored_function (Adjust_Bill i b d n g a j r) db = (Some 1, db)"

definition example_env :: env where
  "example_env =
     \<lparr>json_loads = example_loads,
      json_dumps = example_dumps,
      token_exchange = example_exchange,
      jwt_decode = example_jwt_decode,
      uuid4 = ''1b4e28ba-2fa1-41d2-883f-0016d3cca427'',
      now = example_now,
      is_allowed = example_is_allowed,
      stored_function = example_stored_function\<rparr>"

text \<open>
  A database with three bills: bill 1 (100.50 due) has an unpaid payment record, bill 2
  (80 due) has no payment record, bill 3 (60 due) is paid. One payment method.
\<close>

definition example_db :: database where
  "example_db =
     \<lparr>BILL =
        (\<lambda>b. if b = 1 then [Some (201 / 2)] else if b = 2 then [Some 80]
             else if b = 3 then [Some 60] else []),
      PAYMENTDETAILS = (\<lambda>b. if b = 1 then [PInt 0] else if b = 3 then [PInt 1] else []),
      PaymentMethods = (\<lambda>m. if m = 1 then [PStr ''Cash''] else []),
      calls = []\<rparr>"

text \<open>A state with no session in the store.\<close>

definition example_state :: state where
  "example_state = \<lparr>redis_db = Map.empty, connection = example_db\<rparr>"

section \<open>The stores the program writes\<close>

text \<open>
  The program writes to the session store in one place, the \<^verbatim>\<open>setex\<close> of the
  callback, which comes after the test \<^verbatim>\<open>if not username: raise\<close>. \<open>session_text\<close>
  says of a stored text that it reads back as the payload of the non-empty username
  \<open>u\<close>, with the role \<^verbatim>\<open>None\<close> the callback puts beside it.
\<close>

definition session_text :: "(string \<Rightarrow> pyval option) \<Rightarrow> string \<Rightarrow> string \<Rightarrow> bool" where
  "session_text loads text u =
     (text \<noteq> [] \<and> u \<noteq> []
      \<and> loads text = Some (PDict [(''username'', PStr u), (''role'', PNone)]))"

text \<open>
  The invariant of the store: every record is one the callback has written. Its key is
  not empty (it is the text of a UUID), its time-to-live is 15 and its text is that of
  a session. \<open>loads\<close> is \<^verbatim>\<open>json.loads\<close>.
\<close>

definition program_store :: "(string \<Rightarrow> pyval option) \<Rightarrow> redis \<Rightarrow> bool" where
  "program_store loads r =
     (\<forall>k text ttl. r k = Some (text, ttl) \<longrightarrow>
        k \<noteq> [] \<and> ttl = 15 \<and> (\<exists>u. session_text loads text u))"

text \<open>
  What the invariant asks of the collaborators: \<^verbatim>\<open>str(uuid.uuid4())\<close> is not the empty
  string; the subject of a token that \<^verbatim>\<open>jwt.decode\<close> accepts is a string (the
  StringOrURI of RFC 7519), and \<^verbatim>\<open>json.loads\<close> reads back the payload that
  \<^verbatim>\<open>json.dumps\<close> has written for it.
\<close>

definition well_formed_env :: "env \<Rightarrow> bool" where
  "well_formed_env e =
     (uuid4 e \<noteq> []
      \<and> (\<forall>j claims uname.
            jwt_decode e j = Decoded claims \<and> map_of claims ''sub'' = Some uname
              \<and> truthy uname \<longrightarrow>
            (\<exists>u. uname = PStr u
               \<and> session_text (json_loads e)
                    (json_dumps e (PDict [(''username'', uname), (''role'', PNone)])) u)))"

section \<open>Properties\<close>

lemma endswith_iff: "endswith s suf \<longleftrightarrow> (\<exists>p. s = p @ suf)"
proof
  assume "endswith s suf"
  then have "s = take (length s - length suf) s @ suf"
    by (metis append_take_drop_id endswith_def)
  then show "\<exists>p. s = p @ suf" ..
next
  assume "\<exists>p. s = p @ suf"
  then show "endswith s suf"
    by (auto simp: endswith_def)
qed

lemma endswith_same_length:
  "endswith s a \<Longrightarrow> endswith s b \<Longrightarrow> length a = length b \<Longrightarrow> a = b"
  by (simp add: endswith_def)

lemma endswith_last_three:
  assumes "length suf = 3"
  shows "endswith (drop (length u - 3) u) suf = endswith u suf"
proof (cases "3 \<le> length u")
  case True
  then show ?thesis using assms by (simp add: endswith_def)
next
  case False
  then show ?thesis using assms by (simp add: endswith_def)
qed

text \<open>The role is a function of the last three characters of the username.\<close>

lemma get_role_last_three: "get_role u = get_role (drop (length u - 3) u)"
  by (simp add: get_role_def endswith_last_three)

subsection \<open>Roles\<close>

text \<open>
  C6. The role is read off the suffix of the username: a name ending in \<^verbatim>\<open>_u1\<close> is a
  customer, one ending in \<^verbatim>\<open>_u2\<close> a bank cashier, one ending in \<^verbatim>\<open>_u3\<close> a
  disco (utility) employee. No name has two of these suffixes, so the order of the
  tests in \<^verbatim>\<open>get_role\<close> plays no part.
\<close>

theorem get_role_by_suffix:
  "(endswith u ''_u1'' \<longrightarrow> get_role u = Some ''customer'')
   \<and> (endswith v ''_u2'' \<longrightarrow> get_role v = Some ''bank_cashier'')
   \<and> (endswith w ''_u3'' \<longrightarrow> get_role w = Some ''disco_employee'')"
proof (intro conjI impI)
  assume "endswith u ''_u1''"
  then show "get_role u = Some ''customer''"
    by (simp add: get_role_def)
next
  assume h: "endswith v ''_u2''"
  have "\<not> endswith v ''_u1''"
    using endswith_same_length [OF _ h, of "''_u1''"] by auto
  with h show "get_role v = Some ''bank_cashier''"
    by (simp add: get_role_def)
next
  assume h: "endswith w ''_u3''"
  have "\<not> endswith w ''_u1''"
    using endswith_same_length [OF _ h, of "''_u1''"] by auto
  moreover have "\<not> endswith w ''_u2''"
    using endswith_same_length [OF _ h, of "''_u2''"] by auto
  ultimately show "get_role w = Some ''disco_employee''"
    using h by (simp add: get_role_def)
qed

theorem get_role_by_suffix_witness:
  "endswith ''alice_u1'' ''_u1'' \<and> get_role ''alice_u1'' = Some ''customer''
   \<and> endswith ''bob_u2'' ''_u2'' \<and> get_role ''bob_u2'' = Some ''bank_cashier''
   \<and> endswith ''carol_u3'' ''_u3'' \<and> get_role ''carol_u3'' = Some ''disco_employee''"
  using get_role_by_suffix [of "''alice_u1''" "''bob_u2''" "''carol_u3''"]
  by (simp add: endswith_def)

subsection \<open>The session validator\<close>

lemma validate_session_absent:
  "validate_session e r None =
     Inl (HTTPException 401 ''Not authenticated. Session token missing'')"
  "validate_session e r (Some []) =
     Inl (HTTPException 401 ''Not authenticated. Session token missing'')"
  by (simp_all add: validate_session_def)

lemma validate_session_unknown:
  "t \<noteq> [] \<Longrightarrow> redis_get r t = None \<Longrightarrow>
   validate_session e r (Some t) = Inl (HTTPException 401 ''Token has expired'')"
  by (simp add: validate_session_def)

lemma validate_session_stored:
  assumes "t \<noteq> []" "redis_get r t = Some p" "p \<noteq> []"
    and "json_loads e p = Some (PDict d)" "map_of d ''username'' = Some (PStr u)"
  shows "validate_session e r (Some t) =
           (if u = [] then Inl (HTTPException 401 ''Username missing in session token'')
            else Inr \<lparr>u_username = u, u_role = get_role u\<rparr>)"
  using assms by (simp add: validate_session_def)

text \<open>Records of a store the program has written.\<close>

lemma program_store_empty: "program_store loads Map.empty"
  by (simp add: program_store_def)

lemma program_store_no_empty_key: "program_store loads r \<Longrightarrow> r [] = None"
  by (cases "r []") (auto simp: program_store_def)

lemma program_store_entry:
  assumes "program_store loads r" "redis_get r t = Some text"
  shows "t \<noteq> [] \<and> (\<exists>u. session_text loads text u)"
proof -
  from assms(2) obtain ttl where "r t = Some (text, ttl)"
    by (auto simp: redis_get_def)
  with assms(1) show ?thesis
    unfolding program_store_def by blast
qed

lemma validate_session_of_session_text:
  assumes "t \<noteq> []" "redis_get r t = Some text" "session_text (json_loads e) text u"
  shows "validate_session e r (Some t) = Inr \<lparr>u_username = u, u_role = get_role u\<rparr>"
  using assms by (simp add: validate_session_def session_text_def)

lemma example_store: "program_store (json_loads example_env) [''s2'' \<mapsto> (alice_text, 15)]"
  by (simp add: program_store_def session_text_def example_env_def example_loads_def
      alice_text_def alice_payload_def)

lemma guest_store: "program_store (json_loads example_env) [''s4'' \<mapsto> (guest_text, 15)]"
  by (simp add: program_store_def session_text_def example_env_def example_loads_def
      alice_text_def guest_text_def guest_payload_def)

text \<open>
  C2. Without a session cookie the validator raises 401 "Not authenticated. Session
  token missing", and so it does for a cookie of empty value, which is no token. With
  a token that is not in the store it raises 401 "Token has expired". Otherwise, the
  store being one the program has written, it returns the username that the stored
  payload holds, together with the role derived from that username.
\<close>

theorem validate_session_outcomes:
  "validate_session e r None =
     Inl (HTTPException 401 ''Not authenticated. Session token missing'')
   \<and> validate_session e r (Some []) =
     Inl (HTTPException 401 ''Not authenticated. Session token missing'')
   \<and> (t \<noteq> [] \<and> redis_get r t = None \<longrightarrow>
        validate_session e r (Some t) = Inl (HTTPException 401 ''Token has expired''))
   \<and> (program_store (json_loads e) r' \<and> redis_get r' t' = Some text \<longrightarrow>
        (\<exists>u. json_loads e text = Some (PDict [(''username'', PStr u), (''role'', PNone)])
           \<and> validate_session e r' (Some t') = Inr \<lparr>u_username = u, u_role = get_role u\<rparr>))"
proof (intro conjI impI)
  assume "program_store (json_loads e) r' \<and> redis_get r' t' = Some text"
  then obtain u where "t' \<noteq> []" "redis_get r' t' = Some text"
    "session_text (json_loads e) text u"
    using program_store_entry by blast
  then have "json_loads e text = Some (PDict [(''username'', PStr u), (''role'', PNone)])
      \<and> validate_session e r' (Some t') = Inr \<lparr>u_username = u, u_role = get_role u\<rparr>"
    by (simp add: validate_session_of_session_text) (simp add: session_text_def)
  then show "\<exists>u. json_loads e text = Some (PDict [(''username'', PStr u), (''role'', PNone)])
      \<and> validate_session e r' (Some t') = Inr \<lparr>u_username = u, u_role = get_role u\<rparr>" ..
qed (simp_all add: validate_session_absent validate_session_unknown)

theorem validate_session_outcomes_witness:
  "''s1'' \<noteq> [] \<and> redis_get Map.empty ''s1'' = None
   \<and> validate_session example_env Map.empty (Some ''s1'') =
       Inl (HTTPException 401 ''Token has expired'')
   \<and> program_store (json_loads example_env) [''s2'' \<mapsto> (alice_text, 15)]
   \<and> redis_get [''s2'' \<mapsto> (alice_text, 15)] ''s2'' = Some alice_text
   \<and> json_loads example_env alice_text =
       Some (PDict [(''username'', PStr ''alice_u1''), (''role'', PNone)])
   \<and> validate_session example_env [''s2'' \<mapsto> (alice_text, 15)] (Some ''s2'') =
       Inr \<lparr>u_username = ''alice_u1'', u_role = Some ''customer''\<rparr>"
  using validate_session_outcomes [of example_env Map.empty "''s1''"
      "[''s2'' \<mapsto> (alice_text, 15)]" "''s2''" alice_text] example_store
  by (auto simp add: redis_get_def example_env_def example_loads_def alice_payload_def
      get_role_def endswith_def)

text \<open>
  C8. A username with none of the three suffixes has no role. A session of the store
  that holds such a username validates all the same: the handlers get the username
  with the role \<^verbatim>\<open>None\<close>, and the request is not rejected.
\<close>

theorem unknown_role_session:
  assumes "\<not> endswith u ''_u1''" "\<not> endswith u ''_u2''" "\<not> endswith u ''_u3''"
  shows "get_role u = None
    \<and> (program_store (json_loads e) r \<and> redis_get r t = Some text
        \<and> json_loads e text = Some (PDict [(''username'', PStr u), (''role'', PNone)]) \<longrightarrow>
        validate_session e r (Some t) = Inr \<lparr>u_username = u, u_role = None\<rparr>)"
proof (intro conjI impI)
  show role: "get_role u = None"
    using assms by (simp add: get_role_def)
  assume h: "program_store (json_loads e) r \<and> redis_get r t = Some text
        \<and> json_loads e text = Some (PDict [(''username'', PStr u), (''role'', PNone)])"
  then obtain u' where "t \<noteq> []" "session_text (json_loads e) text u'"
    using program_store_entry by blast
  with h have "t \<noteq> []" "session_text (json_loads e) text u"
    by (simp_all add: session_text_def)
  with h role show "validate_session e r (Some t) = Inr \<lparr>u_username = u, u_role = None\<rparr>"
    by (simp add: validate_session_of_session_text)
qed

theorem unknown_role_session_witness:
  "\<not> endswith ''guest'' ''_u1'' \<and> \<not> endswith ''guest'' ''_u2'' \<and> \<not> endswith ''guest'' ''_u3''
   \<and> get_role ''guest'' = None
   \<and> program_store (json_loads example_env) [''s4'' \<mapsto> (guest_text, 15)]
   \<and> redis_get [''s4'' \<mapsto> (guest_text, 15)] ''s4'' = Some guest_text
   \<and> json_loads example_env guest_text =
       Some (PDict [(''username'', PStr ''guest''), (''role'', PNone)])
   \<and> validate_session example_env [''s4'' \<mapsto> (guest_text, 15)] (Some ''s4'') =
       Inr \<lparr>u_username = ''guest'', u_role = None\<rparr>"
proof -
  have h: "\<not> endswith ''guest'' ''_u1''" "\<not> endswith ''guest'' ''_u2''"
    "\<not> endswith ''guest'' ''_u3''"
    by (simp_all add: endswith_def)
  show ?thesis
    using h guest_store
      unknown_role_session [OF h, of example_env "[''s4'' \<mapsto> (guest_text, 15)]" "''s4''"
        guest_text]
    by (simp add: redis_get_def example_env_def example_loads_def alice_text_def guest_text_def
        guest_payload_def)
qed

subsection \<open>The authentication flow\<close>

lemma callback_no_code:
  "getAccessToken e r None = Inl (HTTPException 400 ''Authorization code not provided/missing.'')"
  "getAccessToken e r (Some []) = Inl (HTTPException 400 ''Authorization code not provided/missing.'')"
  by (simp_all add: getAccessToken_def)

lemma callback_success_get:
  assumes "c \<noteq> []" "token_exchange e c = Inr info" "py_get info ''token'' = Inr j" "truthy j"
    and "jwt_decode e j = Decoded claims" "py_get (PDict claims) ''sub'' = Inr uname"
    and "truthy uname"
  shows "getAccessToken e r (Some c) =
     Inr (RedirectResponse ''/dashboard'' 302
            [SetCookie \<lparr>c_key = ''session_token'', c_value = uuid4 e, c_httponly = True,
                        c_max_age = total_seconds SESSION_DURATION, c_samesite = ''none'',
                        c_secure = True\<rparr>],
          r(uuid4 e \<mapsto> (json_dumps e (PDict [(''username'', uname), (''role'', PNone)]), 15)))"
  using assms
  by (simp add: getAccessToken_def redis_setex_def SESSION_COOKIE_NAME_def Let_def)

lemma callback_success:
  assumes "c \<noteq> []" "token_exchange e c = Inr info" "py_get info ''token'' = Inr j" "truthy j"
    and "jwt_decode e j = Decoded claims" "map_of claims ''sub'' = Some uname" "truthy uname"
  shows "getAccessToken e r (Some c) =
     Inr (RedirectResponse ''/dashboard'' 302
            [SetCookie \<lparr>c_key = ''session_token'', c_value = uuid4 e, c_httponly = True,
                        c_max_age = 15, c_samesite = ''none'', c_secure = True\<rparr>],
          r(uuid4 e \<mapsto> (json_dumps e (PDict [(''username'', uname), (''role'', PNone)]), 15)))"
  using callback_success_get [of c e info j claims uname r] assms
  by (simp add: SESSION_DURATION_def total_seconds_def)

lemma callback_absent_jwt:
  assumes "c \<noteq> []" "token_exchange e c = Inr info" "py_get info ''token'' = Inr j" "\<not> truthy j"
  shows "getAccessToken e r (Some c) = Inl (HTTPException 401 ''Failed to retrieve token.'')"
  using assms by (simp add: getAccessToken_def)

lemma callback_expired_jwt:
  assumes "c \<noteq> []" "token_exchange e c = Inr info" "py_get info ''token'' = Inr j" "truthy j"
    and "jwt_decode e j = ExpiredSignatureError"
  shows "getAccessToken e r (Some c) = Inl (HTTPException 401 ''Token has expired'')"
  using assms by (simp add: getAccessToken_def)

lemma callback_invalid_jwt:
  assumes "c \<noteq> []" "token_exchange e c = Inr info" "py_get info ''token'' = Inr j" "truthy j"
    and "jwt_decode e j = InvalidTokenError"
  shows "getAccessToken e r (Some c) = Inl (HTTPException 401 ''Invalid Token'')"
  using assms by (simp add: getAccessToken_def)

text \<open>What a call of the handler that returns has gone through.\<close>

lemma getAccessToken_returns:
  assumes "getAccessToken e r code = Inr (resp, r')"
  shows "\<exists>c info j claims uname. code = Some c \<and> c \<noteq> [] \<and> token_exchange e c = Inr info
     \<and> py_get info ''token'' = Inr j \<and> truthy j \<and> jwt_decode e j = Decoded claims
     \<and> py_get (PDict claims) ''sub'' = Inr uname \<and> truthy uname"
proof (cases code)
  case None
  with assms show ?thesis by (simp add: getAccessToken_def)
next
  case (Some c)
  note code = this
  show ?thesis
  proof (cases "c = []")
    case True
    with assms code show ?thesis by (simp add: getAccessToken_def)
  next
    case c: False
    show ?thesis
    proof (cases "token_exchange e c")
      case (Inl msg)
      with assms code c show ?thesis by (simp add: getAccessToken_def)
    next
      case info: (Inr info)
      show ?thesis
      proof (cases "py_get info ''token''")
        case (Inl x)
        with assms code c info show ?thesis by (simp add: getAccessToken_def)
      next
        case j: (Inr j)
        show ?thesis
        proof (cases "truthy j")
          case False
          with assms code c info j show ?thesis by (simp add: getAccessToken_def)
        next
          case tj: True
          show ?thesis
          proof (cases "jwt_decode e j")
            case ExpiredSignatureError
            with assms code c info j tj show ?thesis by (simp add: getAccessToken_def)
          next
            case InvalidTokenError
            with assms code c info j tj show ?thesis by (simp add: getAccessToken_def)
          next
            case d: (Decoded claims)
            show ?thesis
            proof (cases "py_get (PDict claims) ''sub''")
              case (Inl x)
              with assms code c info j tj d show ?thesis by (simp add: getAccessToken_def)
            next
              case u: (Inr uname)
              show ?thesis
              proof (cases "truthy uname")
                case False
                with assms code c info j tj d u show ?thesis by (simp add: getAccessToken_def)
              next
                case True
                with code c info j tj d u show ?thesis by simp
              qed
            qed
          qed
        qed
      qed
    qed
  qed
qed

text \<open>
  A session written by the callback resolves to its username, where \<^verbatim>\<open>json.loads\<close>
  reads back what \<^verbatim>\<open>json.dumps\<close> wrote.
\<close>

lemma issued_session_validates:
  assumes "uuid4 e \<noteq> []" "u \<noteq> []"
    and "json_dumps e (PDict [(''username'', PStr u), (''role'', PNone)]) = text" "text \<noteq> []"
    and "json_loads e text = Some (PDict [(''username'', PStr u), (''role'', PNone)])"
  shows "validate_session e (r(uuid4 e \<mapsto> (text, 15))) (Some (uuid4 e)) =
           Inr \<lparr>u_username = u, u_role = get_role u\<rparr>"
  using assms by (simp add: validate_session_def redis_get_def)

text \<open>
  C3. A \<^verbatim>\<open>POST /callback\<close> without a code (or with an empty one) raises 400. With a
  code whose exchange yields a token that \<^verbatim>\<open>jwt.decode\<close> accepts and whose claims hold
  a username under "sub", the handler writes the record with that username into the
  store under the identifier \<^verbatim>\<open>uuid4\<close> has drawn, leaving every other key as it was,
  sets that identifier as the cookie \<^verbatim>\<open>session_token\<close> and answers with a 302 redirect
  to \<^verbatim>\<open>/dashboard\<close>. When the exchange yields no token, an expired one or an invalid
  one, the handler raises 401.
\<close>

theorem callback_issues_session:
  "getAccessToken e r None =
     Inl (HTTPException 400 ''Authorization code not provided/missing.'')
   \<and> getAccessToken e r (Some []) =
     Inl (HTTPException 400 ''Authorization code not provided/missing.'')
   \<and> (c \<noteq> [] \<and> token_exchange e c = Inr info \<and> py_get info ''token'' = Inr j \<and> truthy j
        \<and> jwt_decode e j = Decoded claims \<and> map_of claims ''sub'' = Some uname
        \<and> truthy uname \<longrightarrow>
        getAccessToken e r (Some c) =
          Inr (RedirectResponse ''/dashboard'' 302
                 [SetCookie \<lparr>c_key = ''session_token'', c_value = uuid4 e, c_httponly = True,
                             c_max_age = 15, c_samesite = ''none'', c_secure = True\<rparr>],
               r(uuid4 e \<mapsto>
                   (json_dumps e (PDict [(''username'', uname), (''role'', PNone)]), 15))))
   \<and> (c1 \<noteq> [] \<and> token_exchange e c1 = Inr info1 \<and> py_get info1 ''token'' = Inr j1
        \<and> \<not> truthy j1 \<longrightarrow>
        getAccessToken e r (Some c1) = Inl (HTTPException 401 ''Failed to retrieve token.''))
   \<and> (c2 \<noteq> [] \<and> token_exchange e c2 = Inr info2 \<and> py_get info2 ''token'' = Inr j2
        \<and> truthy j2 \<and> jwt_decode e j2 = ExpiredSignatureError \<longrightarrow>
        getAccessToken e r (Some c2) = Inl (HTTPException 401 ''Token has expired''))
   \<and> (c3 \<noteq> [] \<and> token_exchange e c3 = Inr info3 \<and> py_get info3 ''token'' = Inr j3
        \<and> truthy j3 \<and> jwt_decode e j3 = InvalidTokenError \<longrightarrow>
        getAccessToken e r (Some c3) = Inl (HTTPException 401 ''Invalid Token''))"
  using callback_no_code [of e r] callback_success [of c e info j claims uname r]
    callback_absent_jwt [of c1 e info1 j1 r] callback_expired_jwt [of c2 e info2 j2 r]
    callback_invalid_jwt [of c3 e info3 j3 r]
  by simp

theorem callback_issues_session_witness:
  "''code-alice'' \<noteq> []
   \<and> token_exchange example_env ''code-alice'' = Inr (PDict [(''token'', PStr ''jwt-alice'')])
   \<and> py_get (PDict [(''token'', PStr ''jwt-alice'')]) ''token'' = Inr (PStr ''jwt-alice'')
   \<and> truthy (PStr ''jwt-alice'')
   \<and> jwt_decode example_env (PStr ''jwt-alice'') = Decoded [(''sub'', PStr ''alice_u1'')]
   \<and> map_of [(''sub'', PStr ''alice_u1'')] ''sub'' = Some (PStr ''alice_u1'')
   \<and> truthy (PStr ''alice_u1'')
   \<and> getAccessToken example_env Map.empty (Some ''code-alice'') =
        Inr (RedirectResponse ''/dashboard'' 302
               [SetCookie \<lparr>c_key = ''session_token'',
                           c_value = ''1b4e28ba-2fa1-41d2-883f-0016d3cca427'',
                           c_httponly = True, c_max_age = 15, c_samesite = ''none'',
                           c_secure = True\<rparr>],
             [''1b4e28ba-2fa1-41d2-883f-0016d3cca427'' \<mapsto> (alice_text, 15)])
   \<and> token_exchange example_env ''code-empty'' = Inr (PDict [(''error'', PStr ''no token'')])
   \<and> py_get (PDict [(''error'', PStr ''no token'')]) ''token'' = Inr PNone
   \<and> \<not> truthy PNone
   \<and> getAccessToken example_env Map.empty (Some ''code-empty'') =
        Inl (HTTPException 401 ''Failed to retrieve token.'')
   \<and> token_exchange example_env ''code-old'' = Inr (PDict [(''token'', PStr ''jwt-old'')])
   \<and> jwt_decode example_env (PStr ''jwt-old'') = ExpiredSignatureError
   \<and> getAccessToken example_env Map.empty (Some ''code-old'') =
        Inl (HTTPException 401 ''Token has expired'')
   \<and> token_exchange example_env ''code-forged'' = Inr (PDict [(''token'', PStr ''jwt-forged'')])
   \<and> jwt_decode example_env (PStr ''jwt-forged'') = InvalidTokenError
   \<and> getAccessToken example_env Map.empty (Some ''code-forged'') =
        Inl (HTTPException 401 ''Invalid Token'')"
  using callback_issues_session [of example_env Map.empty "''code-alice''"
      "PDict [(''token'', PStr ''jwt-alice'')]" "PStr ''jwt-alice''"
      "[(''sub'', PStr ''alice_u1'')]" "PStr ''alice_u1''"
      "''code-empty''" "PDict [(''error'', PStr ''no token'')]" PNone
      "''code-old''" "PDict [(''token'', PStr ''jwt-old'')]" "PStr ''jwt-old''"
      "''code-forged''" "PDict [(''token'', PStr ''jwt-forged'')]" "PStr ''jwt-forged''"]
  by (simp add: example_env_def example_exchange_def example_jwt_decode_def example_dumps_def
      alice_payload_def)

text \<open>
  C7. Whenever the callback returns, the session it has written into the store has a
  time-to-live of 15 seconds, and the cookie that carries its identifier has as
  \<^verbatim>\<open>max_age\<close> the seconds of \<^verbatim>\<open>SESSION_DURATION\<close>, which are 15 as well.
\<close>

theorem session_lifetime:
  "getAccessToken e r code = Inr (resp, r') \<longrightarrow>
     (\<exists>text ck. r' (uuid4 e) = Some (text, 15)
        \<and> resp = RedirectResponse ''/dashboard'' 302 [SetCookie ck]
        \<and> c_value ck = uuid4 e
        \<and> c_max_age ck = total_seconds SESSION_DURATION
        \<and> total_seconds SESSION_DURATION = 15)"
proof
  assume ret: "getAccessToken e r code = Inr (resp, r')"
  then obtain c info j claims uname where
    "code = Some c" "c \<noteq> []" "token_exchange e c = Inr info" "py_get info ''token'' = Inr j"
    "truthy j" "jwt_decode e j = Decoded claims" "py_get (PDict claims) ''sub'' = Inr uname"
    "truthy uname"
    using getAccessToken_returns by blast
  then have "getAccessToken e r code =
     Inr (RedirectResponse ''/dashboard'' 302
            [SetCookie \<lparr>c_key = ''session_token'', c_value = uuid4 e, c_httponly = True,
                        c_max_age = total_seconds SESSION_DURATION, c_samesite = ''none'',
                        c_secure = True\<rparr>],
          r(uuid4 e \<mapsto> (json_dumps e (PDict [(''username'', uname), (''role'', PNone)]), 15)))"
    by (simp add: callback_success_get)
  with ret have
    "resp = RedirectResponse ''/dashboard'' 302
            [SetCookie \<lparr>c_key = ''session_token'', c_value = uuid4 e, c_httponly = True,
                        c_max_age = total_seconds SESSION_DURATION, c_samesite = ''none'',
                        c_secure = True\<rparr>]"
    and "r' = r(uuid4 e \<mapsto>
                  (json_dumps e (PDict [(''username'', uname), (''role'', PNone)]), 15))"
    by simp_all
  then show "\<exists>text ck. r' (uuid4 e) = Some (text, 15)
        \<and> resp = RedirectResponse ''/dashboard'' 302 [SetCookie ck]
        \<and> c_value ck = uuid4 e
        \<and> c_max_age ck = total_seconds SESSION_DURATION
        \<and> total_seconds SESSION_DURATION = 15"
    by (simp add: SESSION_DURATION_def total_seconds_def)
qed

theorem session_lifetime_witness:
  "getAccessToken example_env Map.empty (Some ''code-alice'') =
     Inr (RedirectResponse ''/dashboard'' 302
            [SetCookie \<lparr>c_key = ''session_token'',
                        c_value = ''1b4e28ba-2fa1-41d2-883f-0016d3cca427'',
                        c_httponly = True, c_max_age = 15, c_samesite = ''none'',
                        c_secure = True\<rparr>],
          [''1b4e28ba-2fa1-41d2-883f-0016d3cca427'' \<mapsto> (alice_text, 15)])
   \<and> (\<exists>text ck.
         [''1b4e28ba-2fa1-41d2-883f-0016d3cca427'' \<mapsto> (alice_text, 15::nat)]
             (uuid4 example_env) = Some (text, 15)
         \<and> RedirectResponse ''/dashboard'' 302
            [SetCookie \<lparr>c_key = ''session_token'',
                        c_value = ''1b4e28ba-2fa1-41d2-883f-0016d3cca427'',
                        c_httponly = True, c_max_age = 15, c_samesite = ''none'',
                        c_secure = True\<rparr>] =
           RedirectResponse ''/dashboard'' 302 [SetCookie ck]
         \<and> c_value ck = uuid4 example_env
         \<and> c_max_age ck = total_seconds SESSION_DURATION
         \<and> total_seconds SESSION_DURATION = 15)"
proof (rule conjI)
  show run: "getAccessToken example_env Map.empty (Some ''code-alice'') =
     Inr (RedirectResponse ''/dashboard'' 302
            [SetCookie \<lparr>c_key = ''session_token'',
                        c_value = ''1b4e28ba-2fa1-41d2-883f-0016d3cca427'',
                        c_httponly = True, c_max_age = 15, c_samesite = ''none'',
                        c_secure = True\<rparr>],
          [''1b4e28ba-2fa1-41d2-883f-0016d3cca427'' \<mapsto> (alice_text, 15)])"
    by (simp add: getAccessToken_def example_env_def example_exchange_def
        example_jwt_decode_def example_dumps_def alice_payload_def redis_setex_def
        SESSION_COOKIE_NAME_def SESSION_DURATION_def total_seconds_def Let_def)
  from session_lifetime run
  show "\<exists>text ck.
         [''1b4e28ba-2fa1-41d2-883f-0016d3cca427'' \<mapsto> (alice_text, 15::nat)]
             (uuid4 example_env) = Some (text, 15)
         \<and> RedirectResponse ''/dashboard'' 302
            [SetCookie \<lparr>c_key = ''session_token'',
                        c_value = ''1b4e28ba-2fa1-41d2-883f-0016d3cca427'',
                        c_httponly = True, c_max_age = 15, c_samesite = ''none'',
                        c_secure = True\<rparr>] =
           RedirectResponse ''/dashboard'' 302 [SetCookie ck]
         \<and> c_value ck = uuid4 example_env
         \<and> c_max_age ck = total_seconds SESSION_DURATION
         \<and> total_seconds SESSION_DURATION = 15"
    by (rule mp)
qed

subsection \<open>Exceptions on their way to the client\<close>

lemma protected_expired:
  "t \<noteq> [] \<Longrightarrow> redis_get (redis_db st) t = None \<Longrightarrow>
   protected e st (Some t) h = RedirectResponse ''https://168.138.178.200'' 302 []"
  by (simp add: protected_def validate_session_unknown custom_http_exception_handler_def)

text \<open>
  C5. An \<^verbatim>\<open>HTTPException\<close> with status 401 and detail "Token has expired" reaches the
  client as a 302 redirect to the welcome page; any other \<^verbatim>\<open>HTTPException\<close> reaches
  it as a JSON body with the exception's own status code and detail. The two places
  that raise the former do end in the redirect: a protected page asked for with a
  session the store no longer holds, and a callback whose JWT has expired.
\<close>

theorem expired_token_redirect:
  "respond (Inl (HTTPException 401 ''Token has expired'')) =
      RedirectResponse ''https://168.138.178.200'' 302 []
   \<and> (\<not> (status_code = 401 \<and> detail = ''Token has expired'') \<longrightarrow>
        respond (Inl (HTTPException status_code detail)) = JSONResponse status_code detail)
   \<and> (t \<noteq> [] \<and> redis_get (redis_db st) t = None \<longrightarrow>
        app e st (GET_dashboard (Some t)) =
          (RedirectResponse ''https://168.138.178.200'' 302 [], st))
   \<and> (c \<noteq> [] \<and> token_exchange e' c = Inr info \<and> py_get info ''token'' = Inr j \<and> truthy j
        \<and> jwt_decode e' j = ExpiredSignatureError \<longrightarrow>
        app e' st' (POST_callback tok (Some c)) =
          (RedirectResponse ''https://168.138.178.200'' 302 [], st'))"
proof (intro conjI impI)
  show "respond (Inl (HTTPException 401 ''Token has expired'')) =
      RedirectResponse ''https://168.138.178.200'' 302 []"
    by (simp add: custom_http_exception_handler_def)
next
  assume "\<not> (status_code = 401 \<and> detail = ''Token has expired'')"
  then show "respond (Inl (HTTPException status_code detail)) = JSONResponse status_code detail"
    by (simp add: custom_http_exception_handler_def)
next
  assume "t \<noteq> [] \<and> redis_get (redis_db st) t = None"
  then show "app e st (GET_dashboard (Some t)) =
      (RedirectResponse ''https://168.138.178.200'' 302 [], st)"
    by (simp add: protected_expired)
next
  assume "c \<noteq> [] \<and> token_exchange e' c = Inr info \<and> py_get info ''token'' = Inr j \<and> truthy j
        \<and> jwt_decode e' j = ExpiredSignatureError"
  then have "getAccessToken e' (redis_db st') (Some c) =
      Inl (HTTPException 401 ''Token has expired'')"
    by (simp add: callback_expired_jwt)
  then show "app e' st' (POST_callback tok (Some c)) =
      (RedirectResponse ''https://168.138.178.200'' 302 [], st')"
    by (simp add: custom_http_exception_handler_def)
qed

theorem expired_token_redirect_witness:
  "\<not> (403 = (401::nat) \<and> ''Forbidden'' = ''Token has expired'')
   \<and> respond (Inl (HTTPException 403 ''Forbidden'')) = JSONResponse 403 ''Forbidden''
   \<and> ''s1'' \<noteq> [] \<and> redis_get (redis_db example_state) ''s1'' = None
   \<and> app example_env example_state (GET_dashboard (Some ''s1'')) =
        (RedirectResponse ''https://168.138.178.200'' 302 [], example_state)
   \<and> ''code-old'' \<noteq> []
   \<and> token_exchange example_env ''code-old'' = Inr (PDict [(''token'', PStr ''jwt-old'')])
   \<and> py_get (PDict [(''token'', PStr ''jwt-old'')]) ''token'' = Inr (PStr ''jwt-old'')
   \<and> truthy (PStr ''jwt-old'')
   \<and> jwt_decode example_env (PStr ''jwt-old'') = ExpiredSignatureError
   \<and> app example_env example_state (POST_callback None (Some ''code-old'')) =
        (RedirectResponse ''https://168.138.178.200'' 302 [], example_state)"
  using expired_token_redirect [of 403 "''Forbidden''"
      "''s1''" example_state example_env "''code-old''" example_env
      "PDict [(''token'', PStr ''jwt-old'')]" "PStr ''jwt-old''" example_state None]
  by (simp add: example_state_def redis_get_def example_env_def example_exchange_def
      example_jwt_decode_def)

subsection \<open>Signing out\<close>

text \<open>What \<^verbatim>\<open>sign_out\<close> leaves under each key of the store.\<close>

lemma sign_out_store:
  "snd (sign_out r tok) k = (if tok = Some k \<and> k \<noteq> [] then None else r k)"
  by (auto simp: sign_out_def redis_delete_def split: option.splits)

text \<open>
  C10. The answer to \<^verbatim>\<open>GET /sign-out\<close> is the 302 redirect with the session cookie
  deleted, whether or not the request carried a session cookie. In a store without a
  record under the empty key, as every store the program writes is
  (\<open>program_store_no_empty_key\<close>), the record under the cookie is gone afterwards
  exactly when the request carried a cookie; every other record, and every record when
  no cookie was sent, stays.
\<close>

theorem sign_out_effect:
  "fst (sign_out r tok) =
     RedirectResponse ''https://168.138.178.200'' 302 [DeleteCookie ''session_token'']
   \<and> (r [] = None \<longrightarrow> snd (sign_out r tok) k = (if tok = Some k then None else r k))"
proof (intro conjI impI)
  show "fst (sign_out r tok) =
     RedirectResponse ''https://168.138.178.200'' 302 [DeleteCookie ''session_token'']"
    by (simp add: sign_out_def SESSION_COOKIE_NAME_def)
next
  assume "r [] = None"
  then show "snd (sign_out r tok) k = (if tok = Some k then None else r k)"
    by (auto simp: sign_out_store)
qed

theorem sign_out_effect_witness:
  "[''s6'' \<mapsto> (alice_text, 15::nat)] [] = None
   \<and> sign_out [''s6'' \<mapsto> (alice_text, 15)] (Some ''s6'') =
       (RedirectResponse ''https://168.138.178.200'' 302 [DeleteCookie ''session_token''],
        Map.empty)
   \<and> snd (sign_out [''s6'' \<mapsto> (alice_text, 15)] (Some ''s6'')) ''s6'' = None
   \<and> snd (sign_out [''s6'' \<mapsto> (alice_text, 15)] None) ''s6'' = Some (alice_text, 15)"
  using sign_out_effect [of "[''s6'' \<mapsto> (alice_text, 15)]" "Some ''s6''" "''s6''"]
    sign_out_effect [of "[''s6'' \<mapsto> (alice_text, 15)]" None "''s6''"]
  by (simp add: sign_out_def redis_delete_def SESSION_COOKIE_NAME_def)

subsection \<open>The store stays the program's\<close>

text \<open>
  The invariant holds of the empty store, and every request the application serves
  keeps it: only the callback adds a record, after its test of the username, and only
  \<^verbatim>\<open>sign_out\<close> removes one.
\<close>

lemma program_store_delete:
  "program_store loads r \<Longrightarrow> program_store loads (redis_delete r k)"
  by (simp add: program_store_def redis_delete_def)

lemma sign_out_keeps_store:
  "program_store loads r \<Longrightarrow> program_store loads (snd (sign_out r tok))"
  by (simp add: sign_out_def program_store_delete split: option.splits)

lemma getAccessToken_keeps_store:
  assumes inv: "program_store (json_loads e) r" and wf: "well_formed_env e"
    and ret: "getAccessToken e r code = Inr (resp, r')"
  shows "program_store (json_loads e) r'"
proof -
  from ret obtain c info j claims uname where h:
    "code = Some c" "c \<noteq> []" "token_exchange e c = Inr info" "py_get info ''token'' = Inr j"
    "truthy j" "jwt_decode e j = Decoded claims" "py_get (PDict claims) ''sub'' = Inr uname"
    "truthy uname"
    using getAccessToken_returns by blast
  from h(7,8) have sub: "map_of claims ''sub'' = Some uname"
    by (cases "map_of claims ''sub''") auto
  from h have "getAccessToken e r code =
     Inr (RedirectResponse ''/dashboard'' 302
            [SetCookie \<lparr>c_key = ''session_token'', c_value = uuid4 e, c_httponly = True,
                        c_max_age = total_seconds SESSION_DURATION, c_samesite = ''none'',
                        c_secure = True\<rparr>],
          r(uuid4 e \<mapsto> (json_dumps e (PDict [(''username'', uname), (''role'', PNone)]), 15)))"
    by (simp add: callback_success_get)
  with ret have r': "r' = r(uuid4 e \<mapsto>
      (json_dumps e (PDict [(''username'', uname), (''role'', PNone)]), 15))"
    by simp
  from wf h(6) sub h(8) obtain u where
    "session_text (json_loads e) (json_dumps e (PDict [(''username'', uname), (''role'', PNone)])) u"
    unfolding well_formed_env_def by blast
  moreover from wf have "uuid4 e \<noteq> []"
    by (simp add: well_formed_env_def)
  ultimately show ?thesis
    using inv unfolding r' program_store_def by auto
qed

lemma app_keeps_store:
  assumes inv: "program_store (json_loads e) (redis_db st)" and wf: "well_formed_env e"
  shows "program_store (json_loads e) (redis_db (snd (app e st req)))"
proof (cases req)
  case (GET_sign_out tok)
  with inv show ?thesis
    using sign_out_keeps_store [of "json_loads e" "redis_db st" tok]
    by (cases "sign_out (redis_db st) tok") simp
next
  case (POST_callback tok code)
  show ?thesis
  proof (cases "getAccessToken e (redis_db st) code")
    case (Inl x)
    with POST_callback inv show ?thesis by simp
  next
    case (Inr p)
    obtain resp r' where "p = (resp, r')" by (cases p)
    with Inr POST_callback inv wf show ?thesis
      using getAccessToken_keeps_store [of e "redis_db st" code resp r'] by simp
  qed
qed (use inv in \<open>simp_all split: prod.splits\<close>)

text \<open>The concrete environment meets what the invariant asks of the collaborators.\<close>

lemma example_env_well_formed: "well_formed_env example_env"
  by (auto simp: well_formed_env_def example_env_def example_jwt_decode_def session_text_def
      example_dumps_def example_loads_def alice_payload_def alice_text_def split: if_splits)

subsection \<open>Adjustments\<close>












subsection \<open>Access control\<close>

text \<open>Each page handler asks the controller about the role of the user, under one name.\<close>

lemma get_pages_gated:
  "get_bill_payment e usr =
     (if is_allowed e (u_role usr) ''/bill-payment''
      then Inr (TemplateResponse ''bill_payment.html'' (UserContext usr))
      else Inl (HTTPException 403 ''Forbidden''))"
  "get_bill_retrieval e usr =
     (if is_allowed e (u_role usr) ''/bill-retrieval''
      then Inr (TemplateResponse ''bill_retrieval.html'' (UserContext usr))
      else Inl (HTTPException 403 ''Forbidden''))"
  "get_bill_adjustment e usr =
     (if is_allowed e (u_role usr) ''/bill-adjustment''
      then Inr (TemplateResponse ''bill_adjustments.html'' (UserContext usr))
      else Inl (HTTPException 403 ''Forbidden''))"
  by (simp_all add: get_bill_payment_def get_bill_retrieval_def get_bill_adjustment_def)

lemma callfunc_is_allowed: "callfunc (e\<lparr>is_allowed := f\<rparr>) c db = callfunc e c db"
  by (simp add: callfunc_def)

lemma post_handlers_ignore_controller:
  "post_bill_payment (e\<lparr>is_allowed := f\<rparr>) db b a m = post_bill_payment e db b a m"
  "post_bill_adjustments (e\<lparr>is_allowed := f\<rparr>) db b n g a j rsn =
     post_bill_adjustments e db b n g a j rsn"
  by (simp_all add: post_bill_payment_def post_bill_adjustments_def callfunc_is_allowed
      Let_def cong del: option.case_cong_weak if_weak_cong)

lemma post_handlers_ignore_session_and_controller:
  "app (e\<lparr>is_allowed := f\<rparr>) st (POST_bill_payment tok b a m) =
     app e st (POST_bill_payment tok' b a m)"
  "app (e\<lparr>is_allowed := f\<rparr>) st (POST_bill_adjustments tok b n g a j rsn) =
     app e st (POST_bill_adjustments tok' b n g a j rsn)"
  by (simp_all add: post_handlers_ignore_controller)

text \<open>
  C1. The three page handlers (GET) answer 403 to a role the controller does not allow
  (\<open>get_pages_gated\<close>). The handlers of the forms (POST) are declared without the
  session validator and never ask the controller: a \<^verbatim>\<open>POST /bill-payment\<close> that carries
  no session cookie, under a controller that allows nothing to anyone, has the payment
  of bill 1 processed and gets the receipt.
\<close>

theorem payment_without_access_check:
  "fst (app (example_env\<lparr>is_allowed := \<lambda>r f. False\<rparr>) example_state
          (POST_bill_payment None 1 (201 / 2) 1)) =
     TemplateResponse ''payment_receipt.html''
       (PaymentContext
          \<lparr>pd_bill_id = 1, pd_amount = 201 / 2, pd_payment_method_id = 1,
           pd_payment_method_description = PStr ''Cash'', pd_payment_date = example_now,
           pd_payment_status = PInt 1\<rparr>)
   \<and> calls (connection (snd (app (example_env\<lparr>is_allowed := \<lambda>r f. False\<rparr>) example_state
                               (POST_bill_payment None 1 (201 / 2) 1)))) =
       [Process_Payment 1 example_now 1 (201 / 2)]"
  by (simp add: post_bill_payment_def callfunc_def example_env_def example_state_def
      example_db_def fetchone_def)

text \<open>
  C4. The handler of \<^verbatim>\<open>GET /bill-adjustments\<close> asks the controller about the name
  \<^verbatim>\<open>/bill-adjustment\<close>, which is not the path of its route. Under a controller that
  allows a disco employee the path \<^verbatim>\<open>/bill-adjustments\<close>, the employee is refused the
  page; the handler of \<^verbatim>\<open>GET /bill-payment\<close> asks about its own path and lets the
  cashier in.
\<close>

theorem adjustments_page_function_name:
  "is_allowed example_env (Some ''disco_employee'') ''/bill-adjustments''
   \<and> get_bill_adjustment example_env \<lparr>u_username = ''carol_u3'', u_role = Some ''disco_employee''\<rparr> =
       Inl (HTTPException 403 ''Forbidden'')
   \<and> get_bill_payment example_env \<lparr>u_username = ''bob_u2'', u_role = Some ''bank_cashier''\<rparr> =
       Inr (TemplateResponse ''bill_payment.html''
              (UserContext \<lparr>u_username = ''bob_u2'', u_role = Some ''bank_cashier''\<rparr>))"
  by (simp add: get_bill_adjustment_def get_bill_payment_def example_env_def example_is_allowed_def)

end
